theory Spec2Isabelle
  imports Complex_Main "HOL-Library.Log_Nat"
begin

section \<open>The dashboard of src/App.jsx: cache manager and count-up animator\<close>

text \<open>
  The component \<open>DashboardStats\<close> keeps a snapshot of four counters, caches it in
  \<open>localStorage\<close> and shows each counter in a \<open>StatCard\<close> that counts up to it.
  Every function of the source becomes a function on explicit state. Times are
  milliseconds since the epoch (\<open>Date.now()\<close>), handed in by the caller at each turn
  of the event loop. An exception is a value \<open>Inl message\<close>; a \<open>try/catch\<close> is the case
  distinction on it.
\<close>

subsection \<open>Values of the platform\<close>

text \<open>What \<open>JSON.parse\<close> and \<open>response.json()\<close> produce.\<close>

datatype json =
    JNull
  | JBool bool
  | JNum int
  | JStr string
  | JArr "json list"
  | JObj "(string \<times> json) list"

text \<open>
  The built-in codecs are parameters of the model: \<open>JSON_parse\<close> throws (\<open>Inl\<close>) on
  text that is not JSON, \<open>Date_parse\<close> is \<open>new Date(text).getTime()\<close> with \<open>None\<close> for
  an invalid date (NaN).
\<close>

record platform =
  JSON_parse :: "string \<Rightarrow> string + json"
  JSON_stringify :: "json \<Rightarrow> string"
  Date_parse :: "string \<Rightarrow> int option"
  toISOString :: "int \<Rightarrow> string"

text \<open>
  \<open>localStorage\<close>: string slots. Every access throws when the browser denies storage
  to the page; \<open>setItem\<close> throws as well when the stored data would exceed the quota.
\<close>

record storage =
  items :: "(string \<times> string) list"
  denied :: bool
  capacity :: nat

definition used :: "(string \<times> string) list \<Rightarrow> nat" where
  "used kvs = sum_list (map (\<lambda>(k, v). length k + length v) kvs)"

definition put :: "string \<Rightarrow> string \<Rightarrow> (string \<times> string) list \<Rightarrow> (string \<times> string) list" where
  "put k v kvs = (k, v) # filter (\<lambda>(k', _). k' \<noteq> k) kvs"

definition getItem :: "storage \<Rightarrow> string \<Rightarrow> string + string option" where
  "getItem st k = (if denied st then Inl ''SecurityError'' else Inr (map_of (items st) k))"

definition setItem :: "storage \<Rightarrow> string \<Rightarrow> string \<Rightarrow> string + storage" where
  "setItem st k v =
     (if denied st then Inl ''SecurityError''
      else if capacity st < used (put k v (items st)) then Inl ''QuotaExceededError''
      else Inr (st\<lparr>items := put k v (items st)\<rparr>))"

text \<open>A number inside a template literal.\<close>

fun decimal :: "nat \<Rightarrow> string" where
  "decimal n =
     (if n < 10 then [''0123456789'' ! n]
      else decimal (n div 10) @ [''0123456789'' ! (n mod 10)])"

declare decimal.simps [simp del]

subsection \<open>State of the view and of its surroundings\<close>

text \<open>The four \<open>useState\<close> cells and the two refs of \<open>DashboardStats\<close>.\<close>

record view =
  stats :: json
  loading :: bool
  lastUpdated :: int
  error :: "string option"
  intervalRef :: "nat option"
  mountedRef :: bool

definition zero_stats :: json where
  "zero_stats = JObj [(''total_users'', JNum 0), (''total_providers'', JNum 0),
     (''total_active_providers'', JNum 0), (''total_queries_processed'', JNum 0)]"

definition initial_view :: "int \<Rightarrow> view" where
  "initial_view now = \<lparr>stats = zero_stats, loading = False, lastUpdated = now,
     error = None, intervalRef = None, mountedRef = True\<rparr>"

text \<open>
  What the view acts on: the storage, the requests sent so far (the \<open>Authorization\<close>
  header of each, oldest first) and the interval timers that are running. The ids of
  \<open>setInterval\<close> and \<open>setTimeout\<close> come from one counter; \<open>pending\<close> holds the ids of
  the timeouts that have neither run nor been cleared. The handles of
  \<open>requestAnimationFrame\<close> come from a counter of their own.
\<close>

record env =
  localStorage :: storage
  requests :: "string list"
  intervals :: "nat list"
  next_timer :: nat
  pending :: "nat list"
  next_frame :: nat

definition STATS :: string where
  "STATS = ''dashboard_stats''"

definition LAST_UPDATED :: string where
  "LAST_UPDATED = ''dashboard_last_updated''"

subsection \<open>The cache manager\<close>

text \<open>
  \<open>loadCachedData\<close>, lines 24 to 45. Every statement that can throw comes before the
  two state updates, so the \<open>catch\<close> branch returns the view as it was.
\<close>

definition loadCachedData :: "platform \<Rightarrow> int \<Rightarrow> storage \<Rightarrow> view \<Rightarrow> bool \<times> view" where
  "loadCachedData P now st v =
     (case getItem st STATS of
        Inl _ \<Rightarrow> (False, v)
      | Inr cachedStats \<Rightarrow>
     (case getItem st LAST_UPDATED of
        Inl _ \<Rightarrow> (False, v)
      | Inr cachedLastUpdated \<Rightarrow>
          (case (cachedStats, cachedLastUpdated) of
             (Some statsText, Some updatedText) \<Rightarrow>
               if statsText \<noteq> [] \<and> updatedText \<noteq> [] then
                 (case JSON_parse P statsText of
                    Inl _ \<Rightarrow> (False, v)
                  | Inr parsedStats \<Rightarrow>
                      (case Date_parse P updatedText of
                         None \<Rightarrow> (False, v)
                       | Some lastUpdatedDate \<Rightarrow>
                           if lastUpdatedDate > now - 10 * 60 * 1000
                           then (True, v\<lparr>stats := parsedStats, lastUpdated := lastUpdatedDate\<rparr>)
                           else (False, v)))
               else (False, v)
           | _ \<Rightarrow> (False, v))))"

text \<open>\<open>saveToCache\<close>, lines 48 to 55: a throw of the second write keeps the first.\<close>

definition saveToCache :: "platform \<Rightarrow> json \<Rightarrow> int \<Rightarrow> storage \<Rightarrow> storage" where
  "saveToCache P statsData updatedTime st =
     (case setItem st STATS (JSON_stringify P statsData) of
        Inl _ \<Rightarrow> st
      | Inr st1 \<Rightarrow>
          (case setItem st1 LAST_UPDATED (toISOString P updatedTime) of
             Inl _ \<Rightarrow> st1
           | Inr st2 \<Rightarrow> st2))"

text \<open>
  What the awaited \<open>fetch\<close> and \<open>response.json()\<close> deliver: a rejection, or a response
  with its status, its status text and its body (\<open>Inl\<close>: the body does not parse).
\<close>

datatype response =
    Rejected string
  | Response nat string "string + json"

definition ok :: "nat \<Rightarrow> bool" where
  "ok status = (200 \<le> status \<and> status \<le> 299)"

definition bearer :: "string option \<Rightarrow> string" where
  "bearer token = ''Bearer '' @ (case token of None \<Rightarrow> ''null'' | Some t \<Rightarrow> t)"

text \<open>The \<open>catch\<close> and \<open>finally\<close> blocks of \<open>fetchStats\<close>, lines 89 to 100.\<close>

definition fetchStats_catch :: "platform \<Rightarrow> int \<Rightarrow> string \<Rightarrow> storage \<Rightarrow> view \<Rightarrow> view" where
  "fetchStats_catch P now message st v =
     (if mountedRef v then snd (loadCachedData P now st (v\<lparr>error := Some message\<rparr>)) else v)"

definition fetchStats_finally :: "view \<Rightarrow> view" where
  "fetchStats_finally v = (if mountedRef v then v\<lparr>loading := False\<rparr> else v)"

text \<open>
  \<open>fetchStats\<close> up to its \<open>await\<close>, lines 58 to 76: either the call is over, or a
  request is out and the call waits for the response.
\<close>

datatype phase = Finished | Awaiting

definition fetchStats_begin ::
    "platform \<Rightarrow> bool \<Rightarrow> int \<Rightarrow> view \<Rightarrow> env \<Rightarrow> phase \<times> view \<times> env" where
  "fetchStats_begin P skipCache now v e =
     (if \<not> mountedRef v then (Finished, v, e)
      else
        let v1 = v\<lparr>loading := True, error := None\<rparr>;
            (hit, v2) = (if skipCache then (False, v1) else loadCachedData P now (localStorage e) v1)
        in if hit then (Finished, fetchStats_finally (v2\<lparr>loading := False\<rparr>), e)
           else
             (case getItem (localStorage e) ''token'' of
                Inl message \<Rightarrow>
                  (Finished, fetchStats_finally (fetchStats_catch P now message (localStorage e) v2), e)
              | Inr token \<Rightarrow> (Awaiting, v2, e\<lparr>requests := requests e @ [bearer token]\<rparr>)))"

text \<open>\<open>fetchStats\<close> from the \<open>await\<close> on, lines 78 to 100.\<close>

definition fetchStats_resume :: "platform \<Rightarrow> int \<Rightarrow> response \<Rightarrow> view \<Rightarrow> env \<Rightarrow> view \<times> env" where
  "fetchStats_resume P now r v e =
     (case r of
        Rejected message \<Rightarrow>
          (fetchStats_finally (fetchStats_catch P now message (localStorage e) v), e)
      | Response status statusText body \<Rightarrow>
          if ok status then
            (case body of
               Inl message \<Rightarrow>
                 (fetchStats_finally (fetchStats_catch P now message (localStorage e) v), e)
             | Inr data \<Rightarrow>
                 if mountedRef v
                 then (fetchStats_finally (v\<lparr>stats := data, lastUpdated := now\<rparr>),
                       e\<lparr>localStorage := saveToCache P data now (localStorage e)\<rparr>)
                 else (fetchStats_finally v, e))
          else
            (fetchStats_finally
               (fetchStats_catch P now (''HTTP '' @ decimal status @ '': '' @ statusText)
                  (localStorage e) v), e))"

text \<open>One call of \<open>fetchStats\<close> with nothing else running between request and response.\<close>

definition fetchStats ::
    "platform \<Rightarrow> bool \<Rightarrow> int \<Rightarrow> response \<Rightarrow> int \<Rightarrow> view \<Rightarrow> env \<Rightarrow> view \<times> env" where
  "fetchStats P skipCache now r now' v e =
     (case fetchStats_begin P skipCache now v e of
        (Finished, v1, e1) \<Rightarrow> (v1, e1)
      | (Awaiting, v1, e1) \<Rightarrow> fetchStats_resume P now' r v1 e1)"

text \<open>
  The mount effect of \<open>DashboardStats\<close> and its cleanup, lines 103 to 121. The interval
  calls \<open>fetchStats(true)\<close> every 300000 ms for as long as its id is among the running
  timers. \<open>clearInterval\<close> clears the timer of the given id, interval or timeout.
\<close>

definition setInterval :: "env \<Rightarrow> nat \<times> env" where
  "setInterval e =
     (Suc (next_timer e),
      e\<lparr>intervals := Suc (next_timer e) # intervals e, next_timer := Suc (next_timer e)\<rparr>)"

definition clearInterval :: "nat \<Rightarrow> env \<Rightarrow> env" where
  "clearInterval h e =
     e\<lparr>intervals := removeAll h (intervals e), pending := removeAll h (pending e)\<rparr>"

definition DashboardStats_effect :: "platform \<Rightarrow> int \<Rightarrow> view \<Rightarrow> env \<Rightarrow> phase \<times> view \<times> env" where
  "DashboardStats_effect P now v e =
     (let v1 = v\<lparr>mountedRef := True\<rparr>;
          (hadCachedData, v2) = loadCachedData P now (localStorage e) v1;
          (ph, v3, e3) = fetchStats_begin P (\<not> hadCachedData) now v2 e;
          (h, e4) = setInterval e3
      in (ph, v3\<lparr>intervalRef := Some h\<rparr>, e4))"

definition DashboardStats_cleanup :: "view \<Rightarrow> env \<Rightarrow> view \<times> env" where
  "DashboardStats_cleanup v e =
     (v\<lparr>mountedRef := False\<rparr>,
      case intervalRef v of
        None \<Rightarrow> e
      | Some h \<Rightarrow> if h \<noteq> 0 then clearInterval h e else e)"

definition interval_tick ::
    "platform \<Rightarrow> int \<Rightarrow> nat \<Rightarrow> view \<Rightarrow> env \<Rightarrow> phase \<times> view \<times> env" where
  "interval_tick P now h v e =
     (if h \<in> set (intervals e) then fetchStats_begin P True now v e else (Finished, v, e))"

subsection \<open>Numbers\<close>

text \<open>
  The counters and the times are integers that a JavaScript number holds exactly.
  Every arithmetic operation of \<open>animate\<close> yields the double nearest to the exact
  result, ties going to the even significand. \<open>double\<close> is that rounding for a
  significand of 53 bits; the exponent is not bounded, so overflow and subnormal
  numbers are outside the model. \<open>exponent x\<close> is the \<open>e\<close> with
  \<open>2 ^ e \<le> x < 2 ^ (e + 1)\<close> for positive \<open>x\<close>.
\<close>

definition round_even :: "rat \<Rightarrow> int" where
  "round_even y =
     (let f = \<lfloor>y\<rfloor>; r = y - of_int f
      in if r < 1 / 2 then f else if 1 / 2 < r then f + 1 else if even f then f else f + 1)"

definition exponent :: "rat \<Rightarrow> int" where
  "exponent x = (if 1 \<le> x then bitlen \<lfloor>x\<rfloor> - 1 else - bitlen (\<lceil>1 / x\<rceil> - 1))"

definition ulp :: "rat \<Rightarrow> rat" where
  "ulp x = 2 powi (exponent x - 52)"

definition double :: "rat \<Rightarrow> rat" where
  "double x =
     (if x = 0 then 0
      else if 0 < x then of_int (round_even (x / ulp x)) * ulp x
      else - (of_int (round_even (- x / ulp (- x))) * ulp (- x)))"

text \<open>
  \<open>Math.pow\<close> is an approximation that each engine chooses, so it is a parameter of
  \<open>animate\<close>. \<open>pow_rounded\<close> is the \<open>Math.pow\<close> of an engine that returns the double
  nearest to the exact power, for an exponent that is a natural number.
\<close>

type_synonym math_pow = "rat \<Rightarrow> rat \<Rightarrow> rat"

definition pow_rounded :: math_pow where
  "pow_rounded x y = double (x ^ nat \<lfloor>y\<rfloor>)"

subsection \<open>The count-up animator\<close>

text \<open>
  \<open>StatCard\<close> is declared inside the body of \<open>DashboardStats\<close> (line 123), so every
  render of the dashboard makes a new component type: the cards on the page are
  unmounted and new cards are mounted with the values of that render. A card runs its
  animation effect once, when it is mounted, and keeps its \<open>value\<close>.

  \<open>anim\<close> is what the closure \<open>animate\<close> has captured. A card holds whether it is
  mounted, its two state cells, its refs, whether the run of its animation effect
  returned the cleanup function, and the callbacks it has handed to \<open>setTimeout\<close> and
  to \<open>requestAnimationFrame\<close> that have not run yet, each with its id. The callbacks
  of a card outlive its unmounting unless they are cancelled.
\<close>

record anim =
  startValue :: int
  targetValue :: int
  startTime :: int

record card =
  alive :: bool
  displayValue :: int
  isAnimating :: bool
  animationRef :: "nat option"
  previousValueRef :: int
  hasInitializedRef :: bool
  cleanup :: bool
  timeouts :: "(nat \<times> anim) list"
  frames :: "(nat \<times> anim) list"

definition initial_card :: card where
  "initial_card = \<lparr>alive = True, displayValue = 0, isAnimating = False, animationRef = None,
     previousValueRef = 0, hasInitializedRef = False, cleanup = False,
     timeouts = [], frames = []\<rparr>"

text \<open>A state setter of a component that is no longer mounted does nothing. The
  refs are plain objects and are written all the same.\<close>

definition setDisplayValue :: "int \<Rightarrow> card \<Rightarrow> card" where
  "setDisplayValue x c = (if alive c then c\<lparr>displayValue := x\<rparr> else c)"

definition setIsAnimating :: "bool \<Rightarrow> card \<Rightarrow> card" where
  "setIsAnimating b c = (if alive c then c\<lparr>isAnimating := b\<rparr> else c)"

definition duration :: rat where
  "duration = 1500"

definition setTimeout :: "anim \<Rightarrow> card \<Rightarrow> env \<Rightarrow> card \<times> env" where
  "setTimeout a c e =
     (c\<lparr>timeouts := timeouts c @ [(Suc (next_timer e), a)]\<rparr>,
      e\<lparr>pending := pending e @ [Suc (next_timer e)], next_timer := Suc (next_timer e)\<rparr>)"

text \<open>Both calls of \<open>requestAnimationFrame\<close> store the handle in \<open>animationRef\<close>.\<close>

definition requestAnimationFrame :: "anim \<Rightarrow> card \<Rightarrow> env \<Rightarrow> card \<times> env" where
  "requestAnimationFrame a c e =
     (c\<lparr>frames := frames c @ [(Suc (next_frame e), a)],
        animationRef := Some (Suc (next_frame e))\<rparr>,
      e\<lparr>next_frame := Suc (next_frame e)\<rparr>)"

definition cancelAnimationFrame :: "nat \<Rightarrow> card \<Rightarrow> card" where
  "cancelAnimationFrame h c = c\<lparr>frames := filter (\<lambda>(i, _). i \<noteq> h) (frames c)\<rparr>"

text \<open>
  The arithmetic of \<open>animate\<close>, lines 173 to 178: the progress at time \<open>now\<close> of an
  animation started at \<open>start\<close>, the eased progress, and the value between the start
  value and the target.
\<close>

definition progress :: "int \<Rightarrow> int \<Rightarrow> rat" where
  "progress now start = min (double (double (of_int now - of_int start) / duration)) 1"

definition easeOutCubic :: "math_pow \<Rightarrow> rat \<Rightarrow> rat" where
  "easeOutCubic Math_pow pr = double (1 - Math_pow (double (1 - pr)) 3)"

definition currentValue :: "math_pow \<Rightarrow> int \<Rightarrow> int \<Rightarrow> rat \<Rightarrow> rat" where
  "currentValue Math_pow sv tv pr =
     double (of_int sv + double (double (of_int tv - of_int sv) * easeOutCubic Math_pow pr))"

text \<open>\<open>animate\<close>, lines 167 to 190; \<open>mounted\<close> is \<open>mountedRef.current\<close> of the dashboard.\<close>

definition animate :: "math_pow \<Rightarrow> bool \<Rightarrow> int \<Rightarrow> anim \<Rightarrow> card \<Rightarrow> env \<Rightarrow> card \<times> env" where
  "animate Math_pow mounted now a c e =
     (if \<not> mounted then (setIsAnimating False c, e)
      else
        let pr = progress now (startTime a);
            c1 = setDisplayValue
                   \<lfloor>currentValue Math_pow (startValue a) (targetValue a) pr\<rfloor> c
        in if pr \<ge> 1
           then ((setIsAnimating False (setDisplayValue (targetValue a) c1))
                   \<lparr>hasInitializedRef := True, previousValueRef := targetValue a\<rparr>, e)
           else requestAnimationFrame a c1 e)"

text \<open>\<open>startAnimation\<close>, lines 151 to 198, up to the \<open>setTimeout\<close>.\<close>

definition startAnimation :: "bool \<Rightarrow> int \<Rightarrow> int \<Rightarrow> card \<Rightarrow> env \<Rightarrow> card \<times> env" where
  "startAnimation mounted now target c e =
     (if \<not> mounted then (c, e)
      else
        let c1 = setIsAnimating True c;
            a = \<lparr>startValue = (if hasInitializedRef c then previousValueRef c else 0),
                 targetValue = target, startTime = now\<rparr>
        in if targetValue a - startValue a = 0 then (setIsAnimating False c1, e)
           else setTimeout a c1 e)"

text \<open>The animation effect, lines 131 to 208. Line 144 hands the frame handle to
  \<open>clearInterval\<close>, which clears the timer of that id, if there is one, and no frame.\<close>

definition StatCard_effect :: "bool \<Rightarrow> int \<Rightarrow> int \<Rightarrow> card \<Rightarrow> env \<Rightarrow> card \<times> env" where
  "StatCard_effect mounted now target c e =
     (if target = 0 \<or> target = previousValueRef c then
        (if \<not> hasInitializedRef c \<and> target > 0
         then ((setDisplayValue target c)\<lparr>hasInitializedRef := True,
                 previousValueRef := target, cleanup := False\<rparr>, e)
         else (c\<lparr>cleanup := False\<rparr>, e))
      else
        let (c1, e1) =
              (case animationRef c of
                 None \<Rightarrow> (c, e)
               | Some h \<Rightarrow>
                   if h \<noteq> 0 then (c\<lparr>animationRef := None\<rparr>, clearInterval h e) else (c, e))
        in if isAnimating c1 then (c1\<lparr>cleanup := False\<rparr>, e1)
           else
             let (c2, e2) = startAnimation mounted now target c1 e1
             in (c2\<lparr>cleanup := True\<rparr>, e2))"

text \<open>The cleanup the animation effect returns, lines 202 to 207, and the cleanup of
  the unmount effect, lines 211 to 217.\<close>

definition StatCard_cleanup :: "card \<Rightarrow> card" where
  "StatCard_cleanup c =
     (case animationRef c of
        None \<Rightarrow> c
      | Some h \<Rightarrow> if h \<noteq> 0 then (cancelAnimationFrame h c)\<lparr>animationRef := None\<rparr> else c)"

definition StatCard_unmount_cleanup :: "card \<Rightarrow> card" where
  "StatCard_unmount_cleanup c =
     (case animationRef c of
        None \<Rightarrow> c
      | Some h \<Rightarrow> if h \<noteq> 0 then cancelAnimationFrame h c else c)"

text \<open>The callback given to \<open>setTimeout\<close>, lines 193 to 197, when its delay is over. A
  timeout that was cleared does not run.\<close>

definition timeout_fires :: "bool \<Rightarrow> card \<Rightarrow> env \<Rightarrow> card \<times> env" where
  "timeout_fires mounted c e =
     (case timeouts c of
        [] \<Rightarrow> (c, e)
      | (h, a) # rest \<Rightarrow>
          if h \<in> set (pending e) then
            (if mounted
             then requestAnimationFrame a (c\<lparr>timeouts := rest\<rparr>)
                    (e\<lparr>pending := removeAll h (pending e)\<rparr>)
             else (c\<lparr>timeouts := rest\<rparr>, e\<lparr>pending := removeAll h (pending e)\<rparr>))
          else (c\<lparr>timeouts := rest\<rparr>, e))"

text \<open>The browser runs the oldest pending frame callback of the card.\<close>

definition frame_fires :: "math_pow \<Rightarrow> bool \<Rightarrow> int \<Rightarrow> card \<Rightarrow> env \<Rightarrow> card \<times> env" where
  "frame_fires Math_pow mounted now c e =
     (case frames c of
        [] \<Rightarrow> (c, e)
      | (h, a) # rest \<Rightarrow> animate Math_pow mounted now a (c\<lparr>frames := rest\<rparr>) e)"

text \<open>
  Mounting a card runs the effect on the fresh card. Unmounting runs the cleanup of
  the animation effect, if its run returned one, and the cleanup of the unmount
  effect. A render of the dashboard unmounts the card of a metric and mounts a new one
  with the value of that render: the result is the old card, the new card and the
  surroundings. Deactivation unmounts the cards that are mounted.
\<close>

definition StatCard_mount :: "bool \<Rightarrow> int \<Rightarrow> int \<Rightarrow> env \<Rightarrow> card \<times> env" where
  "StatCard_mount mounted now target e = StatCard_effect mounted now target initial_card e"

definition StatCard_unmount :: "card \<Rightarrow> card" where
  "StatCard_unmount c =
     (StatCard_unmount_cleanup (if cleanup c then StatCard_cleanup c else c))\<lparr>alive := False\<rparr>"

definition StatCard_rerender ::
    "bool \<Rightarrow> int \<Rightarrow> int \<Rightarrow> card \<Rightarrow> env \<Rightarrow> card \<times> card \<times> env" where
  "StatCard_rerender mounted now target c e =
     (StatCard_unmount c, StatCard_mount mounted now target e)"

definition unmount_mounted :: "card \<Rightarrow> card" where
  "unmount_mounted c = (if alive c then StatCard_unmount c else c)"

subsection \<open>Notions of the specification\<close>

text \<open>
  A refresh fails on a rejected request, on a status outside 200 to 299 and on a body
  that does not parse.
\<close>

definition failed :: "response \<Rightarrow> bool" where
  "failed r =
     (case r of
        Rejected _ \<Rightarrow> True
      | Response status _ body \<Rightarrow> \<not> ok status \<or> isl body)"

text \<open>
  The fresh cache entry at time \<open>now\<close>, in the words of the specification: the
  persisted snapshot and its capture time, when both slots can be read, are present
  and parse, and \<open>now - captureTimestamp\<close> is below the freshness window of ten minutes.
\<close>

definition fresh_entry :: "platform \<Rightarrow> int \<Rightarrow> storage \<Rightarrow> (json \<times> int) option" where
  "fresh_entry P now st =
     (if denied st then None
      else
        (case (map_of (items st) STATS, map_of (items st) LAST_UPDATED) of
           (Some s, Some u) \<Rightarrow>
             if s = [] \<or> u = [] then None
             else
               (case (JSON_parse P s, Date_parse P u) of
                  (Inr d, Some t) \<Rightarrow> if now - t < 10 * 60 * 1000 then Some (d, t) else None
                | _ \<Rightarrow> None)
         | _ \<Rightarrow> None))"

subsection \<open>A concrete platform for the examples\<close>

text \<open>
  The snapshot of the specification's scenario, codecs that know one snapshot text
  and one date text, and a browser with empty storage.
\<close>

definition demo_snapshot :: json where
  "demo_snapshot = JObj [(''total_users'', JNum 1200), (''total_providers'', JNum 34),
     (''total_active_providers'', JNum 29), (''total_queries_processed'', JNum 58210)]"

definition demo_platform :: platform where
  "demo_platform =
     \<lparr>JSON_parse = (\<lambda>s. if s = ''snapshot'' then Inr demo_snapshot else Inl ''SyntaxError''),
      JSON_stringify = (\<lambda>j. if j = demo_snapshot then ''snapshot'' else ''other''),
      Date_parse = (\<lambda>s. if s = ''epoch'' then Some 0 else None),
      toISOString = (\<lambda>t. if t = 0 then ''epoch'' else ''later'')\<rparr>"

definition empty_storage :: storage where
  "empty_storage = \<lparr>items = [], denied = False, capacity = 5000000\<rparr>"

definition demo_env :: env where
  "demo_env = \<lparr>localStorage = empty_storage, requests = [], intervals = [], next_timer = 0,
     pending = [], next_frame = 0\<rparr>"

text \<open>The storage after a snapshot was cached at time 0.\<close>

definition cached_storage :: storage where
  "cached_storage = empty_storage\<lparr>items := [(LAST_UPDATED, ''epoch''), (STATS, ''snapshot'')]\<rparr>"

text \<open>
  A card mounted at time 0 with the value 1000: as mounted, after its start delay,
  after its frame at 750 ms and after its frame at 1500 ms.
\<close>

definition demo_mounted :: "card \<times> env" where
  "demo_mounted = StatCard_mount True 0 1000 demo_env"

definition demo_started :: "card \<times> env" where
  "demo_started = timeout_fires True (fst demo_mounted) (snd demo_mounted)"

definition demo_running :: "card \<times> env" where
  "demo_running = frame_fires pow_rounded True 750 (fst demo_started) (snd demo_started)"

definition demo_settled :: "card \<times> env" where
  "demo_settled = frame_fires pow_rounded True 1500 (fst demo_running) (snd demo_running)"

text \<open>
  The dashboard renders with the value 1300 at 50 ms, during the start delay of the
  card: the card is replaced. Then the timeout of the replaced card runs.
\<close>

definition demo_replaced :: "card \<times> card \<times> env" where
  "demo_replaced = StatCard_rerender True 50 1300 (fst demo_mounted) (snd demo_mounted)"

definition demo_leftover :: "card \<times> env" where
  "demo_leftover = timeout_fires True (fst demo_replaced) (snd (snd demo_replaced))"

section \<open>Properties\<close>

lemmas cache_defs = fetchStats_def fetchStats_begin_def fetchStats_resume_def
  fetchStats_finally_def fetchStats_catch_def

lemmas demo_defs = initial_view_def demo_env_def empty_storage_def cached_storage_def
  demo_platform_def STATS_def LAST_UPDATED_def

lemmas storage_defs = getItem_def setItem_def saveToCache_def put_def used_def

subsection \<open>Loading the cache\<close>

text \<open>\<open>loadCachedData\<close> serves the fresh entry and nothing else.\<close>

lemma loadCachedData_fresh_entry:
  "loadCachedData P now st v =
     (case fresh_entry P now st of
        Some (d, t) \<Rightarrow> (True, v\<lparr>stats := d, lastUpdated := t\<rparr>)
      | None \<Rightarrow> (False, v))"
  by (auto simp: loadCachedData_def fresh_entry_def getItem_def
           split: sum.splits option.splits)

lemma loadCachedData_miss:
  "\<not> fst (loadCachedData P now st v) \<Longrightarrow> snd (loadCachedData P now st v) = v"
  by (simp add: loadCachedData_fresh_entry split: option.splits prod.splits)

text \<open>
  C9. \<open>loadCachedData\<close> never passes a failure on to its caller. Whenever it reports
  no cached data it leaves the view, and so the displayed snapshot, as it was; and it
  reports no cached data when a read of the storage throws, when the snapshot slot is
  absent, and when the text in the snapshot slot makes \<open>JSON.parse\<close> throw.
\<close>

theorem loadCachedData_fail_soft:
  "(\<not> fst (loadCachedData P now st v) \<longrightarrow> snd (loadCachedData P now st v) = v) \<and>
   (getItem st STATS = Inl m \<or> getItem st LAST_UPDATED = Inl m \<or>
    getItem st STATS = Inr None \<or>
    (getItem st STATS = Inr (Some s) \<and> JSON_parse P s = Inl m)
      \<longrightarrow> loadCachedData P now st v = (False, v))"
proof (intro conjI impI)
  assume "\<not> fst (loadCachedData P now st v)"
  then show "snd (loadCachedData P now st v) = v" by (rule loadCachedData_miss)
next
  assume "getItem st STATS = Inl m \<or> getItem st LAST_UPDATED = Inl m \<or>
    getItem st STATS = Inr None \<or>
    (getItem st STATS = Inr (Some s) \<and> JSON_parse P s = Inl m)"
  then show "loadCachedData P now st v = (False, v)"
    by (auto simp: loadCachedData_def split: sum.splits option.splits)
qed

text \<open>Storage that denies access, and a snapshot slot holding text that is not JSON.\<close>

theorem loadCachedData_fail_soft_witness:
  "getItem (empty_storage\<lparr>denied := True\<rparr>) STATS = Inl ''SecurityError'' \<and>
   loadCachedData demo_platform 0 (empty_storage\<lparr>denied := True\<rparr>) (initial_view 0)
     = (False, initial_view 0) \<and>
   getItem (cached_storage\<lparr>items := [(LAST_UPDATED, ''epoch''), (STATS, ''{oops'')]\<rparr>) STATS
     = Inr (Some ''{oops'') \<and>
   JSON_parse demo_platform ''{oops'' = Inl ''SyntaxError'' \<and>
   loadCachedData demo_platform 0
     (cached_storage\<lparr>items := [(LAST_UPDATED, ''epoch''), (STATS, ''{oops'')]\<rparr>)
     (initial_view 0) = (False, initial_view 0)"
  using loadCachedData_fail_soft [of demo_platform 0 "empty_storage\<lparr>denied := True\<rparr>"
          "initial_view 0" "''SecurityError''" "''{oops''"]
        loadCachedData_fail_soft [of demo_platform 0
          "cached_storage\<lparr>items := [(LAST_UPDATED, ''epoch''), (STATS, ''{oops'')]\<rparr>"
          "initial_view 0" "''SyntaxError''" "''{oops''"]
  by (simp add: getItem_def demo_defs)

subsection \<open>Refreshing\<close>

text \<open>
  C2. On a mounted view, when the storage holds a snapshot that parses and a capture
  time less than ten minutes before the call, \<open>fetchStats\<close> with \<open>skipCache\<close> false is
  over before any request: the requests and the storage are as before, and the view
  shows the cached snapshot and its capture time, whatever the network would answer.
\<close>

theorem fetchStats_fresh_cache:
  assumes "mountedRef v" and "\<not> denied (localStorage e)"
    and "map_of (items (localStorage e)) STATS = Some s" and "s \<noteq> []"
    and "map_of (items (localStorage e)) LAST_UPDATED = Some u" and "u \<noteq> []"
    and "JSON_parse P s = Inr d" and "Date_parse P u = Some t"
    and "now - t < 10 * 60 * 1000"
  shows "fetchStats_begin P False now v e
           = (Finished, v\<lparr>stats := d, lastUpdated := t, loading := False, error := None\<rparr>, e) \<and>
         fetchStats P False now r now' v e
           = (v\<lparr>stats := d, lastUpdated := t, loading := False, error := None\<rparr>, e)"
proof -
  have "fresh_entry P now (localStorage e) = Some (d, t)"
    using assms by (simp add: fresh_entry_def)
  then show ?thesis
    using assms(1) by (simp add: cache_defs loadCachedData_fresh_entry)
qed

text \<open>The snapshot cached at time 0 and a refresh two minutes later.\<close>

theorem fetchStats_fresh_cache_witness:
  "fetchStats_begin demo_platform False 120000 (initial_view 120000)
      (demo_env\<lparr>localStorage := cached_storage\<rparr>)
     = (Finished, (initial_view 120000)\<lparr>stats := demo_snapshot, lastUpdated := 0\<rparr>,
        demo_env\<lparr>localStorage := cached_storage\<rparr>) \<and>
   requests (snd (fetchStats demo_platform False 120000 (Rejected ''offline'') 120500
      (initial_view 120000) (demo_env\<lparr>localStorage := cached_storage\<rparr>))) = []"
  using fetchStats_fresh_cache [of "initial_view 120000"
          "demo_env\<lparr>localStorage := cached_storage\<rparr>" "''snapshot''" "''epoch''"
          demo_platform demo_snapshot 0 120000 "Rejected ''offline''" 120500]
  by (simp add: demo_defs)

lemma fetchStats_begin_awaiting:
  assumes "mountedRef v" and "getItem (localStorage e) ''token'' = Inr token"
    and "skipCache \<or> fresh_entry P now (localStorage e) = None"
  shows "fetchStats_begin P skipCache now v e
           = (Awaiting, v\<lparr>loading := True, error := None\<rparr>,
              e\<lparr>requests := requests e @ [bearer token]\<rparr>)"
  using assms
  by (cases skipCache) (simp_all add: fetchStats_begin_def Let_def loadCachedData_fresh_entry)

lemma fetchStats_resume_requests:
  "requests (snd (fetchStats_resume P now r v e)) = requests e"
  by (simp add: fetchStats_resume_def split: response.splits sum.splits)

lemma fetchStats_resume_success:
  assumes "mountedRef v" and "ok status"
  shows "fetchStats_resume P now (Response status statusText (Inr data)) v e
           = (v\<lparr>stats := data, lastUpdated := now, loading := False\<rparr>,
              e\<lparr>localStorage := saveToCache P data now (localStorage e)\<rparr>)"
  using assms by (simp add: fetchStats_resume_def fetchStats_finally_def)

lemma fetchStats_resume_failed:
  assumes "mountedRef v" and "failed r"
  shows "\<exists>message. fetchStats_resume P now r v e =
     (case fresh_entry P now (localStorage e) of
        Some (d, t) \<Rightarrow>
          v\<lparr>error := Some message, stats := d, lastUpdated := t, loading := False\<rparr>
      | None \<Rightarrow> v\<lparr>error := Some message, loading := False\<rparr>, e)"
  using assms
  by (cases r) (auto simp: failed_def cache_defs loadCachedData_fresh_entry
       split: option.splits sum.splits)

text \<open>
  C5, as the code has it. On a mounted view whose read of the credential from storage
  returns, a call of \<open>fetchStats\<close> that is forced, or that finds no fresh cache entry
  (the entry is stale, absent or unreadable), sends exactly one request: the call
  suspends with one more request out, and its completion sends none. A forced call
  does so whatever the cache holds.
\<close>

theorem fetchStats_one_request:
  assumes "mountedRef v" and "getItem (localStorage e) ''token'' = Inr token"
    and "skipCache \<or> fresh_entry P now (localStorage e) = None"
  shows "fetchStats_begin P skipCache now v e
           = (Awaiting, v\<lparr>loading := True, error := None\<rparr>,
              e\<lparr>requests := requests e @ [bearer token]\<rparr>) \<and>
         requests (snd (fetchStats P skipCache now r now' v e)) = requests e @ [bearer token]"
  using fetchStats_begin_awaiting [OF assms]
  by (simp add: fetchStats_def fetchStats_resume_requests)

text \<open>A forced refresh over a fresh cache, a refresh over a stale cache and a refresh
  over an empty storage.\<close>

theorem fetchStats_one_request_witness:
  "requests (snd (fetchStats demo_platform True 120000
      (Response 200 ''OK'' (Inr demo_snapshot)) 120300
      (initial_view 120000) (demo_env\<lparr>localStorage := cached_storage\<rparr>))) = [''Bearer null''] \<and>
   fresh_entry demo_platform 700000 cached_storage = None \<and>
   requests (snd (fetchStats demo_platform False 700000 (Rejected ''offline'') 700300
      (initial_view 700000) (demo_env\<lparr>localStorage := cached_storage\<rparr>))) = [''Bearer null''] \<and>
   fresh_entry demo_platform 0 empty_storage = None \<and>
   requests (snd (fetchStats demo_platform False 0 (Rejected ''offline'') 300
      (initial_view 0) demo_env)) = [''Bearer null'']"
  using fetchStats_one_request [of "initial_view 120000"
          "demo_env\<lparr>localStorage := cached_storage\<rparr>" None True demo_platform 120000
          "Response 200 ''OK'' (Inr demo_snapshot)" 120300]
        fetchStats_one_request [of "initial_view 700000"
          "demo_env\<lparr>localStorage := cached_storage\<rparr>" None False demo_platform 700000
          "Rejected ''offline''" 700300]
        fetchStats_one_request [of "initial_view 0" demo_env
          None False demo_platform 0 "Rejected ''offline''" 300]
  by (simp add: getItem_def fresh_entry_def bearer_def demo_defs)

text \<open>
  C5 as stated fails. When the browser denies the page its storage, the header
  expression of line 73 throws before \<open>fetch\<close> is called: a forced refresh on a mounted
  view ends in the \<open>catch\<close> block and no request is sent.
\<close>

theorem fetchStats_denied_storage_counterexample:
  "getItem (empty_storage\<lparr>denied := True\<rparr>) ''token'' = Inl ''SecurityError'' \<and>
   fetchStats_begin demo_platform True 0 (initial_view 0)
      (demo_env\<lparr>localStorage := empty_storage\<lparr>denied := True\<rparr>\<rparr>)
     = (Finished, (initial_view 0)\<lparr>error := Some ''SecurityError''\<rparr>,
        demo_env\<lparr>localStorage := empty_storage\<lparr>denied := True\<rparr>\<rparr>) \<and>
   requests (snd (fetchStats demo_platform True 0 (Response 200 ''OK'' (Inr demo_snapshot)) 300
      (initial_view 0) (demo_env\<lparr>localStorage := empty_storage\<lparr>denied := True\<rparr>\<rparr>))) = []"
  by (simp add: cache_defs loadCachedData_def getItem_def demo_defs)

text \<open>
  C1, as the code has it. When a refresh fails on a mounted view (rejected request,
  status outside 200 to 299, or a body that does not parse), the storage and the rest
  of the surroundings are left as they were, the error is set, and the snapshot shown
  afterwards is the cached one only if a fresh cache entry exists at that moment; if
  there is none (also when an entry exists but is ten minutes old or older) the
  snapshot shown before the refresh stays.
\<close>

theorem fetchStats_failure_fallback:
  assumes "mountedRef v" and "failed r"
  shows "snd (fetchStats_resume P now r v e) = e \<and>
         error (fst (fetchStats_resume P now r v e)) \<noteq> None \<and>
         stats (fst (fetchStats_resume P now r v e))
           = (case fresh_entry P now (localStorage e) of
                Some (d, t) \<Rightarrow> d
              | None \<Rightarrow> stats v)"
proof -
  obtain message where "fetchStats_resume P now r v e =
     (case fresh_entry P now (localStorage e) of
        Some (d, t) \<Rightarrow>
          v\<lparr>error := Some message, stats := d, lastUpdated := t, loading := False\<rparr>
      | None \<Rightarrow> v\<lparr>error := Some message, loading := False\<rparr>, e)"
    using fetchStats_resume_failed [OF assms] by blast
  then show ?thesis by (simp split: option.splits)
qed

text \<open>A status 500 five minutes after the snapshot was cached.\<close>

theorem fetchStats_failure_fallback_witness:
  "failed (Response 500 ''Internal Server Error'' (Inl ''no body'')) \<and>
   fresh_entry demo_platform 300000 cached_storage = Some (demo_snapshot, 0) \<and>
   stats (fst (fetchStats_resume demo_platform 300000
     (Response 500 ''Internal Server Error'' (Inl ''no body''))
     (initial_view 300000) (demo_env\<lparr>localStorage := cached_storage\<rparr>))) = demo_snapshot \<and>
   snd (fetchStats_resume demo_platform 300000
     (Response 500 ''Internal Server Error'' (Inl ''no body''))
     (initial_view 300000) (demo_env\<lparr>localStorage := cached_storage\<rparr>))
     = demo_env\<lparr>localStorage := cached_storage\<rparr>"
  using fetchStats_failure_fallback [of "initial_view 300000"
     "Response 500 ''Internal Server Error'' (Inl ''no body'')" demo_platform 300000
     "demo_env\<lparr>localStorage := cached_storage\<rparr>"]
  by (simp add: failed_def ok_def fresh_entry_def demo_defs)

text \<open>
  C1 as stated fails. A successful refresh at time 0 caches the snapshot. A dashboard
  mounted 700000 ms later finds the entry stale and sends a request; the answer is
  status 500, and the view goes on showing the zero-valued snapshot although the
  cached snapshot is in the storage.
\<close>

theorem fetchStats_stale_fallback_counterexample:
  "localStorage (snd (fetchStats demo_platform True 0 (Response 200 ''OK'' (Inr demo_snapshot)) 0
      (initial_view 0) demo_env)) = cached_storage \<and>
   JSON_parse demo_platform ''snapshot'' = Inr demo_snapshot \<and>
   DashboardStats_effect demo_platform 700000 (initial_view 700000)
      (demo_env\<lparr>localStorage := cached_storage\<rparr>)
     = (Awaiting, (initial_view 700000)\<lparr>loading := True, intervalRef := Some 1\<rparr>,
        demo_env\<lparr>localStorage := cached_storage, requests := [''Bearer null''],
          intervals := [1], next_timer := 1\<rparr>) \<and>
   fetchStats_resume demo_platform 700300
      (Response 500 ''Internal Server Error'' (Inl ''no body''))
      ((initial_view 700000)\<lparr>loading := True, intervalRef := Some 1\<rparr>)
      (demo_env\<lparr>localStorage := cached_storage, requests := [''Bearer null''],
          intervals := [1], next_timer := 1\<rparr>)
     = ((initial_view 700000)\<lparr>error := Some ''HTTP 500: Internal Server Error'',
          intervalRef := Some 1\<rparr>,
        demo_env\<lparr>localStorage := cached_storage, requests := [''Bearer null''],
          intervals := [1], next_timer := 1\<rparr>) \<and>
   stats (initial_view 700000) = zero_stats \<and>
   zero_stats \<noteq> demo_snapshot"
  by (simp add: cache_defs storage_defs loadCachedData_def ok_def bearer_def demo_defs
        DashboardStats_effect_def setInterval_def decimal.simps
        zero_stats_def demo_snapshot_def)

text \<open>
  C10. When the response of a refresh on a mounted view is a success, the view shows
  the fetched snapshot with the time of the response as its last update, and the
  error cell is not written, whatever the storage does with the two writes: if the
  first write throws, nothing is stored. For a whole call of \<open>fetchStats\<close> that sent
  the request, the error cell ends empty.
\<close>

theorem fetchStats_save_failure_swallowed:
  assumes "mountedRef v" and "ok status"
  shows "fst (fetchStats_resume P now' (Response status statusText (Inr data)) v e)
           = v\<lparr>stats := data, lastUpdated := now', loading := False\<rparr> \<and>
         (setItem (localStorage e) STATS (JSON_stringify P data) = Inl m \<longrightarrow>
            snd (fetchStats_resume P now' (Response status statusText (Inr data)) v e) = e) \<and>
         (getItem (localStorage e) ''token'' = Inr token \<and>
          (skipCache \<or> fresh_entry P now (localStorage e) = None) \<longrightarrow>
            fst (fetchStats P skipCache now (Response status statusText (Inr data)) now' v e)
              = v\<lparr>stats := data, lastUpdated := now', loading := False, error := None\<rparr>)"
proof (intro conjI impI)
  show "fst (fetchStats_resume P now' (Response status statusText (Inr data)) v e)
           = v\<lparr>stats := data, lastUpdated := now', loading := False\<rparr>"
    by (simp add: fetchStats_resume_success [OF assms])
next
  assume "setItem (localStorage e) STATS (JSON_stringify P data) = Inl m"
  then show "snd (fetchStats_resume P now' (Response status statusText (Inr data)) v e) = e"
    by (simp add: fetchStats_resume_success [OF assms] saveToCache_def)
next
  assume "getItem (localStorage e) ''token'' = Inr token \<and>
          (skipCache \<or> fresh_entry P now (localStorage e) = None)"
  then have "fetchStats_begin P skipCache now v e
           = (Awaiting, v\<lparr>loading := True, error := None\<rparr>,
              e\<lparr>requests := requests e @ [bearer token]\<rparr>)"
    using fetchStats_begin_awaiting assms(1) by blast
  then show "fst (fetchStats P skipCache now (Response status statusText (Inr data)) now' v e)
              = v\<lparr>stats := data, lastUpdated := now', loading := False, error := None\<rparr>"
    using assms by (simp add: fetchStats_def fetchStats_resume_success)
qed

text \<open>A storage whose quota is used up: the write throws, the view is updated.\<close>

theorem fetchStats_save_failure_swallowed_witness:
  "setItem (empty_storage\<lparr>capacity := 0\<rparr>) STATS (JSON_stringify demo_platform demo_snapshot)
     = Inl ''QuotaExceededError'' \<and>
   fetchStats demo_platform True 0 (Response 200 ''OK'' (Inr demo_snapshot)) 250 (initial_view 0)
     (demo_env\<lparr>localStorage := empty_storage\<lparr>capacity := 0\<rparr>\<rparr>)
     = ((initial_view 0)\<lparr>stats := demo_snapshot, lastUpdated := 250\<rparr>,
        demo_env\<lparr>localStorage := empty_storage\<lparr>capacity := 0\<rparr>,
          requests := [''Bearer null'']\<rparr>)"
  using fetchStats_save_failure_swallowed [of "initial_view 0" 200 demo_platform 250 "''OK''"
     demo_snapshot "demo_env\<lparr>localStorage := empty_storage\<lparr>capacity := 0\<rparr>\<rparr>"
     "''QuotaExceededError''" None True 0]
  by (simp add: cache_defs storage_defs ok_def bearer_def demo_defs)

subsection \<open>Rounding to doubles\<close>

text \<open>\<open>round_even\<close> stays within the two integers around its argument and is
  monotone.\<close>

lemma round_even_floor:
  "\<lfloor>y\<rfloor> \<le> round_even y \<and> round_even y \<le> \<lfloor>y\<rfloor> + 1 \<and>
   (round_even y = \<lfloor>y\<rfloor> + 1 \<longrightarrow> of_int \<lfloor>y\<rfloor> < y)"
  by (auto simp: round_even_def Let_def)

lemma round_even_lower: "of_int z \<le> y \<Longrightarrow> z \<le> round_even y"
  using round_even_floor [of y] by (simp add: le_floor_iff [symmetric])

lemma round_even_upper:
  assumes "y \<le> of_int z"
  shows "round_even y \<le> z"
proof (cases "round_even y = \<lfloor>y\<rfloor>")
  case True
  have "\<lfloor>y\<rfloor> \<le> z" using assms by (metis floor_mono floor_of_int)
  with True show ?thesis by simp
next
  case False
  with round_even_floor [of y] have r: "round_even y = \<lfloor>y\<rfloor> + 1" and "of_int \<lfloor>y\<rfloor> < y"
    by auto
  then have "of_int \<lfloor>y\<rfloor> < (of_int z :: rat)" using assms by simp
  then have "\<lfloor>y\<rfloor> < z" by simp
  with r show ?thesis by simp
qed

lemma round_even_of_int [simp]: "round_even (of_int z) = z"
  by (simp add: round_even_def)

lemma round_even_mono:
  assumes "x \<le> y"
  shows "round_even x \<le> round_even y"
proof (cases "\<lfloor>x\<rfloor> = \<lfloor>y\<rfloor>")
  case True
  with assms show ?thesis by (auto simp: round_even_def Let_def)
next
  case False
  with assms have "\<lfloor>x\<rfloor> + 1 \<le> \<lfloor>y\<rfloor>" using floor_mono [OF assms] by simp
  with round_even_floor [of x] round_even_floor [of y] show ?thesis by simp
qed

text \<open>\<open>exponent\<close> is the binary exponent of a positive number.\<close>

lemma bitlen_pos: "0 < n \<Longrightarrow> 1 \<le> bitlen n"
  using bitlen_eq_zero_iff [of n] bitlen_nonneg [of n] by linarith

lemma powi_nat: "0 \<le> k \<Longrightarrow> (2::rat) powi k = 2 ^ nat k"
  by (simp add: power_int_def)

lemma recip_le_powi: "0 < x \<Longrightarrow> 1 / x \<le> 2 powi b \<Longrightarrow> 2 powi (- b) \<le> (x::rat)"
proof -
  assume a: "0 < x" "1 / x \<le> 2 powi b"
  have p: "(0::rat) < 2 powi b" by simp
  from a p have "1 \<le> x * 2 powi b" by (simp add: field_simps)
  then have "inverse (2 powi b) \<le> x" using p by (simp add: field_simps)
  then show ?thesis by (simp add: power_int_minus)
qed
lemma recip_less_powi: "0 < x \<Longrightarrow> 2 powi (b - 1) < 1 / x \<Longrightarrow> (x::rat) < 2 powi (- b + 1)"
proof -
  assume a: "0 < x" "2 powi (b - 1) < 1 / x"
  have p: "(0::rat) < 2 powi (b - 1)" by simp
  from a p have "x * 2 powi (b - 1) < 1" by (simp add: field_simps)
  then have "x < inverse (2 powi (b - 1))" using p by (simp add: field_simps)
  also have "inverse ((2::rat) powi (b - 1)) = 2 powi (- (b - 1))" by (simp only: power_int_minus)
  finally show ?thesis by (simp add: algebra_simps)
qed
lemma exponent_bounds:
  assumes "0 < x"
  shows "2 powi exponent x \<le> x \<and> x < 2 powi (exponent x + 1)"
proof (cases "1 \<le> x")
  case True
  define n where "n = \<lfloor>x\<rfloor>"
  have n: "0 < n" using True by (simp add: n_def)
  have b: "1 \<le> bitlen n" using n by (rule bitlen_pos)
  have e: "exponent x = bitlen n - 1" using True by (simp add: exponent_def n_def)
  have lo: "(2::int) ^ nat (bitlen n - 1) \<le> n" and hi: "n < 2 ^ nat (bitlen n)"
    using bitlen_bounds [OF n] by simp_all
  have "(2::rat) powi (bitlen n - 1) = of_int (2 ^ nat (bitlen n - 1))"
    using b by (simp add: powi_nat)
  also have "\<dots> \<le> of_int n" using lo by (simp only: of_int_le_iff)
  also have "\<dots> \<le> x" unfolding n_def by linarith
  finally have 1: "2 powi exponent x \<le> x" by (simp add: e)
  have "x < of_int (n + 1)" unfolding n_def by simp linarith
  also have "\<dots> \<le> of_int (2 ^ nat (bitlen n))" using hi by (simp only: of_int_le_iff)
  also have "\<dots> = (2::rat) powi (bitlen n)" using b by (simp add: powi_nat)
  finally have 2: "x < 2 powi (exponent x + 1)" by (simp add: e)
  from 1 2 show ?thesis ..
next
  case False
  define y where "y = 1 / x"
  define m where "m = \<lceil>y\<rceil> - 1"
  have y: "1 < y" using False assms by (simp add: y_def)
  then have m: "0 < m" unfolding m_def by linarith 
  have b: "1 \<le> bitlen m" using m by (rule bitlen_pos)
  have e: "exponent x = - bitlen m" using False by (simp add: exponent_def m_def y_def)
  have lo: "(2::int) ^ nat (bitlen m - 1) \<le> m" and hi: "m < 2 ^ nat (bitlen m)"
    using bitlen_bounds [OF m] by simp_all
  have "y \<le> of_int (m + 1)" unfolding m_def by simp
  also have "\<dots> \<le> of_int (2 ^ nat (bitlen m))" using hi by (simp only: of_int_le_iff)
  also have "\<dots> = (2::rat) powi (bitlen m)" using b by (simp add: powi_nat)
  finally have "1 / x \<le> 2 powi bitlen m" by (simp add: y_def)
  then have 1: "2 powi exponent x \<le> x" using assms recip_le_powi by (simp add: e)
  have "(2::rat) powi (bitlen m - 1) = of_int (2 ^ nat (bitlen m - 1))"
    using b by (simp add: powi_nat)
  also have "\<dots> \<le> of_int m" using lo by (simp only: of_int_le_iff)
  also have "\<dots> < y" unfolding m_def by linarith
  finally have "2 powi (bitlen m - 1) < 1 / x" by (simp add: y_def)
  then have 2: "x < 2 powi (exponent x + 1)" using assms recip_less_powi by (simp add: e)
  from 1 2 show ?thesis ..
qed

text \<open>The significand of a rounded positive number has 53 bits, so the rounded
  number stays in the closed binade of its argument; rounding is monotone.\<close>

lemma ulp_pos [simp]: "0 < ulp x"
  by (simp add: ulp_def)

lemma powi_52: "(2::rat) powi e = 2 ^ 52 * 2 powi (e - 52)"
proof -
  have "(2::rat) powi e = 2 powi (52 + (e - 52))" by simp
  also have "\<dots> = 2 powi 52 * 2 powi (e - 52)" by (rule power_int_add) simp
  finally show ?thesis by (simp add: power_int_def)
qed

lemma powi_53: "(2::rat) powi (e + 1) = 2 ^ 53 * 2 powi (e - 52)"
proof -
  have "(2::rat) powi (e + 1) = 2 powi (53 + (e - 52))"
    by (rule arg_cong [where f = "power_int 2"]) simp
  also have "\<dots> = 2 powi 53 * 2 powi (e - 52)" by (rule power_int_add) simp
  finally show ?thesis by (simp add: power_int_def)
qed

lemma mantissa_bounds:
  assumes "0 < x"
  shows "2 ^ 52 \<le> round_even (x / ulp x) \<and> round_even (x / ulp x) \<le> 2 ^ 53"
proof -
  have "2 ^ 52 * ulp x \<le> x" and "x < 2 ^ 53 * ulp x"
    using exponent_bounds [OF assms]
    by (simp_all only: ulp_def powi_52 [of "exponent x"] powi_53 [of "exponent x"])
  then have "of_int (2 ^ 52) \<le> x / ulp x" and "x / ulp x \<le> of_int (2 ^ 53)"
    by (simp_all add: pos_le_divide_eq pos_divide_le_eq less_imp_le)
  then show ?thesis by (blast intro: round_even_lower round_even_upper)
qed

lemma double_pos_bounds:
  assumes "0 < x"
  shows "2 powi exponent x \<le> double x \<and> double x \<le> 2 powi (exponent x + 1)"
proof -
  define m where "m = round_even (x / ulp x)"
  have "2 ^ 52 \<le> m" and "m \<le> 2 ^ 53"
    using mantissa_bounds [OF assms] by (simp_all add: m_def)
  then have "(of_int (2 ^ 52) :: rat) \<le> of_int m" and "(of_int m :: rat) \<le> of_int (2 ^ 53)"
    by (simp_all only: of_int_le_iff)
  then have "(2 ^ 52 :: rat) \<le> of_int (round_even (x / ulp x))"
    and "of_int (round_even (x / ulp x)) \<le> (2 ^ 53 :: rat)"
    by (simp_all add: m_def)
  then have "2 ^ 52 * ulp x \<le> double x" and "double x \<le> 2 ^ 53 * ulp x"
    using assms by (simp_all add: double_def)
  then show ?thesis
    by (simp only: ulp_def powi_52 [of "exponent x"] powi_53 [of "exponent x"])
qed

lemma exponent_mono:
  assumes "0 < x" and "x \<le> y"
  shows "exponent x \<le> exponent y"
proof (rule ccontr)
  assume "\<not> exponent x \<le> exponent y"
  then have "exponent y + 1 \<le> exponent x" by simp
  then have "(2::rat) powi (exponent y + 1) \<le> 2 powi exponent x"
    by (intro power_int_increasing) simp_all
  moreover have "2 powi exponent x \<le> x" using exponent_bounds [OF assms(1)] by simp
  moreover have "y < 2 powi (exponent y + 1)" using exponent_bounds [of y] assms by simp
  ultimately show False using assms(2) by linarith
qed

lemma double_mono_pos:
  assumes "0 < x" and "x \<le> y"
  shows "double x \<le> double y"
proof (cases "exponent x = exponent y")
  case True
  then have u: "ulp x = ulp y" by (simp add: ulp_def)
  have "x / ulp y \<le> y / ulp y"
    by (rule divide_right_mono [OF assms(2)]) (simp add: less_imp_le)
  then have "round_even (x / ulp y) \<le> round_even (y / ulp y)" by (rule round_even_mono)
  then have "(of_int (round_even (x / ulp y)) :: rat) \<le> of_int (round_even (y / ulp y))"
    by simp
  then show ?thesis using assms u by (simp add: double_def)
next
  case False
  then have "exponent x + 1 \<le> exponent y" using exponent_mono [OF assms] by simp
  then have "(2::rat) powi (exponent x + 1) \<le> 2 powi exponent y"
    by (intro power_int_increasing) simp_all
  moreover have "double x \<le> 2 powi (exponent x + 1)"
    using double_pos_bounds [OF assms(1)] by simp
  moreover have "2 powi exponent y \<le> double y"
    using double_pos_bounds [of y] assms by simp
  ultimately show ?thesis by linarith
qed

lemma double_pos:
  assumes "0 < x"
  shows "0 < double x"
proof -
  have "(0::rat) < 2 powi exponent x" by simp
  with double_pos_bounds [OF assms] show ?thesis by linarith
qed

lemma double_minus: "double (- x) = - double x"
  by (simp add: double_def)

lemma double_mono:
  assumes "x \<le> y"
  shows "double x \<le> double y"
proof -
  consider "0 < x" | "x \<le> 0" "0 \<le> y" | "y < 0" by linarith
  then show ?thesis
  proof cases
    case 1
    then show ?thesis using assms by (rule double_mono_pos)
  next
    case 2
    have "double x \<le> 0"
      using 2(1) double_pos [of "- x"] by (cases "x = 0") (simp_all add: double_minus, simp add: double_def)
    moreover have "0 \<le> double y"
      using 2(2) double_pos [of y] by (cases "y = 0") (simp_all add: double_def)
    ultimately show ?thesis by simp
  next
    case 3
    then have "0 < - y" and "- y \<le> - x" using assms by simp_all
    then have "double (- y) \<le> double (- x)" by (rule double_mono_pos)
    then show ?thesis by (simp add: double_minus)
  qed
qed

subsection \<open>The animator\<close>

lemmas card_defs = StatCard_mount_def StatCard_unmount_def StatCard_rerender_def
  StatCard_effect_def StatCard_cleanup_def StatCard_unmount_cleanup_def startAnimation_def
  timeout_fires_def frame_fires_def animate_def requestAnimationFrame_def setTimeout_def
  cancelAnimationFrame_def setDisplayValue_def setIsAnimating_def unmount_mounted_def
  initial_card_def clearInterval_def

lemmas demo_card_defs = demo_mounted_def demo_started_def demo_running_def demo_settled_def
  demo_replaced_def demo_leftover_def demo_env_def

text \<open>From 1500 ms on the progress is 1; before, it is below 1.\<close>

lemma double_1500: "double 1500 = 1500" by code_simp
lemma double_1499: "double 1499 = 1499" by code_simp
lemma double_1: "double 1 = 1" by code_simp
lemma double_below_1: "double (1499 / 1500) < 1" by code_simp

lemma progress_finished:
  assumes "start + 1500 \<le> now"
  shows "progress now start = 1"
proof -
  have "(1500::rat) \<le> of_int now - of_int start" using assms by linarith
  then have "double 1500 \<le> double (of_int now - of_int start)" by (rule double_mono)
  then have "1 \<le> double (of_int now - of_int start) / 1500" by (simp add: double_1500)
  then have "double 1 \<le> double (double (of_int now - of_int start) / 1500)"
    by (rule double_mono)
  then show ?thesis by (simp add: progress_def duration_def double_1)
qed

lemma progress_running:
  assumes "now - start < 1500"
  shows "progress now start < 1"
proof -
  have "of_int now - of_int start \<le> (1499::rat)" using assms by linarith
  then have "double (of_int now - of_int start) \<le> double 1499" by (rule double_mono)
  then have "double (of_int now - of_int start) / 1500 \<le> 1499 / 1500"
    by (simp add: double_1499)
  then have "double (double (of_int now - of_int start) / 1500) \<le> double (1499 / 1500)"
    by (rule double_mono)
  then show ?thesis using double_below_1 by (simp add: progress_def duration_def)
qed

lemma animate_finished:
  assumes "alive c" and "startTime a + 1500 \<le> now"
  shows "animate Math_pow True now a c e
           = (c\<lparr>displayValue := targetValue a, isAnimating := False,
                hasInitializedRef := True, previousValueRef := targetValue a\<rparr>, e)"
  using assms
  by (simp add: animate_def progress_finished setDisplayValue_def setIsAnimating_def Let_def)

lemma animate_running:
  assumes "alive c" and "now - startTime a < 1500"
  shows "displayValue (fst (animate Math_pow True now a c e))
           = \<lfloor>currentValue Math_pow (startValue a) (targetValue a) (progress now (startTime a))\<rfloor>"
  using assms progress_running [OF assms(2)]
  by (simp add: animate_def setDisplayValue_def requestAnimationFrame_def Let_def)

lemma double_750: "double 750 = 750" by code_simp
lemma double_half: "double (1 / 2) = 1 / 2" by code_simp
lemma double_7_8: "double (7 / 8) = 7 / 8" by code_simp
lemma double_1000: "double 1000 = 1000" by code_simp
lemma double_875: "double 875 = 875" by code_simp

lemma progress_750: "progress (s + 750) s = 1 / 2"
  by (simp add: progress_def duration_def double_750 double_half)

text \<open>
  C6, as the code has it. At a frame of a running animation (less than 1500 ms after
  its start) on a mounted dashboard, a mounted card displays
  \<open>floor (p + (t - p) * (1 - pow (1 - min (e / 1500) 1) 3))\<close> computed in doubles:
  every operation yields the double nearest to its exact result, and \<open>pow\<close> is the
  \<open>Math.pow\<close> of the engine. From 0 towards 1000 it displays 875 after 750 ms, for
  every engine whose \<open>Math.pow\<close> gives 0.125 for 0.5 cubed.
\<close>

theorem animate_rounded_ease_out:
  "(mounted \<and> alive c \<and> now - startTime a < 1500 \<longrightarrow>
      displayValue (fst (animate Math_pow mounted now a c e))
        = \<lfloor>double (of_int (startValue a)
             + double (double (of_int (targetValue a) - of_int (startValue a))
                 * double (1 - Math_pow (double (1 - min
                     (double (double (of_int now - of_int (startTime a)) / 1500)) 1)) 3)))\<rfloor>) \<and>
   (alive c \<and> Math_pow (1 / 2) 3 = 1 / 8 \<longrightarrow>
      displayValue (fst (animate Math_pow True (s + 750)
         \<lparr>startValue = 0, targetValue = 1000, startTime = s\<rparr> c e)) = 875)"
proof (intro conjI impI)
  assume "mounted \<and> alive c \<and> now - startTime a < 1500"
  then show "displayValue (fst (animate Math_pow mounted now a c e))
        = \<lfloor>double (of_int (startValue a)
             + double (double (of_int (targetValue a) - of_int (startValue a))
                 * double (1 - Math_pow (double (1 - min
                     (double (double (of_int now - of_int (startTime a)) / 1500)) 1)) 3)))\<rfloor>"
    by (simp add: animate_running currentValue_def easeOutCubic_def progress_def duration_def)
next
  assume a: "alive c \<and> Math_pow (1 / 2) 3 = 1 / 8"
  have "s + 750 - s < 1500" by simp
  then have "displayValue (fst (animate Math_pow True (s + 750)
         \<lparr>startValue = 0, targetValue = 1000, startTime = s\<rparr> c e))
      = \<lfloor>currentValue Math_pow 0 1000 (1 / 2)\<rfloor>"
    using a animate_running [of c "s + 750" "\<lparr>startValue = 0, targetValue = 1000, startTime = s\<rparr>"]
    by (simp add: progress_750)
  also have "\<dots> = 875"
  proof -
    from a have p: "Math_pow (1 / 2) 3 = 1 / 8" by simp
    show ?thesis
      by (simp add: currentValue_def easeOutCubic_def double_half p double_7_8 double_1000
            double_875)
  qed
  finally show "displayValue (fst (animate Math_pow True (s + 750)
         \<lparr>startValue = 0, targetValue = 1000, startTime = s\<rparr> c e)) = 875" .
qed

lemma pow_rounded_half: "pow_rounded (1 / 2) 3 = 1 / 8" by code_simp

lemma rounded_300:
  "\<lfloor>double (0 + double (double (1000 - 0) * double (1 - pow_rounded (double (1 - min
      (double (double (300 - 0) / 1500)) 1)) 3)))\<rfloor> = 487"
  by code_simp

text \<open>The animation from 0 towards 1000 after 300 ms and after 750 ms, with a
  correctly rounded \<open>Math.pow\<close>.\<close>

theorem animate_rounded_ease_out_witness:
  "displayValue (fst (animate pow_rounded True 300
     \<lparr>startValue = 0, targetValue = 1000, startTime = 0\<rparr> initial_card demo_env)) = 487 \<and>
   displayValue (fst (animate pow_rounded True 750
     \<lparr>startValue = 0, targetValue = 1000, startTime = 0\<rparr> initial_card demo_env)) = 875"
  using animate_rounded_ease_out [of True initial_card 300
     "\<lparr>startValue = 0, targetValue = 1000, startTime = 0\<rparr>" pow_rounded demo_env 0]
    rounded_300 pow_rounded_half
  by (simp add: initial_card_def)

lemma exact_300: "\<lfloor>(0 + (1000 - 0) * (1 - (1 - min (300 / 1500) 1) ^ 3) :: rat)\<rfloor> = 488"
  by code_simp

lemma progress_300: "progress 300 0 = double (1 / 5)" by code_simp
lemma current_300: "\<lfloor>currentValue pow_rounded 0 1000 (double (1 / 5))\<rfloor> = 487" by code_simp
lemma running_300: "\<not> 1 \<le> double (1 / 5)" by code_simp

text \<open>
  C6 as stated fails. The formula over exact numbers gives 488 for \<open>p = 0\<close>,
  \<open>t = 1000\<close> and \<open>e = 300\<close>; the card displays 487, because \<open>1000 * (1 - 0.8 ^ 3)\<close>
  in doubles is just below 488.
\<close>

theorem animate_rounding_counterexample:
  "displayValue (fst (animate pow_rounded True 300
     \<lparr>startValue = 0, targetValue = 1000, startTime = 0\<rparr> initial_card demo_env)) = 487 \<and>
   \<lfloor>(0 + (1000 - 0) * (1 - (1 - min (300 / 1500) 1) ^ 3) :: rat)\<rfloor> = 488"
  using exact_300
  by (simp add: animate_def progress_300 current_300 running_300 setDisplayValue_def
        requestAnimationFrame_def initial_card_def Let_def)

text \<open>The cards of the examples.\<close>

lemma progress_750_0: "progress 750 0 = 1 / 2" using progress_750 [of 0] by simp
lemma progress_1500_0: "progress 1500 0 = 1" by (rule progress_finished) simp
lemma current_750: "\<lfloor>currentValue pow_rounded 0 1000 (1 / 2)\<rfloor> = 875" by code_simp
lemma current_1500: "\<lfloor>currentValue pow_rounded 0 1000 1\<rfloor> = 1000" by code_simp

lemma demo_running:
  "demo_running =
     (\<lparr>alive = True, displayValue = 875, isAnimating = True, animationRef = Some 2,
        previousValueRef = 0, hasInitializedRef = False, cleanup = True, timeouts = [],
        frames = [(2, \<lparr>startValue = 0, targetValue = 1000, startTime = 0\<rparr>)]\<rparr>,
      demo_env\<lparr>next_timer := 1, next_frame := 2\<rparr>)"
  by (simp add: card_defs demo_card_defs progress_750_0 current_750 Let_def)

lemma demo_settled:
  "demo_settled =
     (\<lparr>alive = True, displayValue = 1000, isAnimating = False, animationRef = Some 2,
        previousValueRef = 1000, hasInitializedRef = True, cleanup = True, timeouts = [],
        frames = []\<rparr>,
      demo_env\<lparr>next_timer := 1, next_frame := 2\<rparr>)"
  by (simp add: demo_settled_def demo_running card_defs demo_env_def progress_1500_0
        current_1500 Let_def)

lemma demo_leftover:
  "demo_leftover =
     (\<lparr>alive = False, displayValue = 0, isAnimating = True, animationRef = Some 1,
        previousValueRef = 0, hasInitializedRef = False, cleanup = True, timeouts = [],
        frames = [(1, \<lparr>startValue = 0, targetValue = 1000, startTime = 0\<rparr>)]\<rparr>,
      demo_env\<lparr>next_timer := 2, pending := [2], next_frame := 1\<rparr>)"
  by (simp add: card_defs demo_card_defs Let_def)

text \<open>What mounting and unmounting do.\<close>

lemma animate_unmounted_card:
  "\<not> alive d \<Longrightarrow> displayValue (fst (animate Math_pow mounted now a d e)) = displayValue d"
  by (simp add: animate_def setDisplayValue_def setIsAnimating_def requestAnimationFrame_def
        Let_def)

lemma StatCard_mount_target:
  assumes "t \<noteq> 0"
  shows "StatCard_mount True now t e
           = (initial_card\<lparr>isAnimating := True, cleanup := True,
                timeouts := [(Suc (next_timer e),
                  \<lparr>startValue = 0, targetValue = t, startTime = now\<rparr>)]\<rparr>,
              e\<lparr>pending := pending e @ [Suc (next_timer e)], next_timer := Suc (next_timer e)\<rparr>)"
  using assms
  by (simp add: StatCard_mount_def StatCard_effect_def startAnimation_def setTimeout_def
        setIsAnimating_def initial_card_def Let_def)

lemma StatCard_mount_zero:
  "StatCard_mount mounted now 0 e = (initial_card, e)"
  by (simp add: StatCard_mount_def StatCard_effect_def initial_card_def)

lemma StatCard_unmount_running:
  assumes "cleanup c" and "animationRef c = Some h" and "h \<noteq> 0" and "frames c = [(h, a)]"
  shows "StatCard_unmount c = c\<lparr>frames := [], animationRef := None, alive := False\<rparr>"
  using assms
  by (simp add: StatCard_unmount_def StatCard_cleanup_def StatCard_unmount_cleanup_def
        cancelAnimationFrame_def)

text \<open>
  C3, as the code has it. When the dashboard renders with a new target \<open>t2\<close>, not 0,
  while the animation of a card has its frame pending, the card is unmounted: the
  frame is cancelled without snapping, the card keeps the value it displayed and no
  setter writes it again. The card mounted for \<open>t2\<close> starts a transition towards \<open>t2\<close>
  whose start value is not read from the value displayed before. At a frame 1500 ms
  or more after the start of that transition the card displays exactly \<open>t2\<close> and is no
  longer animating.
\<close>

theorem StatCard_rerender_while_animating:
  assumes "cleanup c" and "animationRef c = Some h" and "h \<noteq> 0" and "frames c = [(h, a)]"
    and "t2 \<noteq> 0"
  shows "fst (StatCard_rerender True now t2 c e)
           = c\<lparr>frames := [], animationRef := None, alive := False\<rparr> \<and>
         fst (snd (StatCard_rerender True now t2 c e))
           = initial_card\<lparr>isAnimating := True, cleanup := True,
               timeouts := [(Suc (next_timer e),
                 \<lparr>startValue = 0, targetValue = t2, startTime = now\<rparr>)]\<rparr> \<and>
         (alive c' \<and> now + 1500 \<le> now' \<longrightarrow>
            animate Math_pow True now' \<lparr>startValue = 0, targetValue = t2, startTime = now\<rparr> c' e'
              = (c'\<lparr>displayValue := t2, isAnimating := False,
                   hasInitializedRef := True, previousValueRef := t2\<rparr>, e')) \<and>
         (\<not> alive d \<longrightarrow>
            displayValue (fst (animate Math_pow mounted now' a' d e')) = displayValue d)"
  using assms
  by (simp add: StatCard_rerender_def StatCard_unmount_running StatCard_mount_target
        animate_finished animate_unmounted_card)

text \<open>The card at 875 on its way to 1000 when the dashboard renders with 2000.\<close>

theorem StatCard_rerender_while_animating_witness:
  "fst (StatCard_rerender True 800 2000 (fst demo_running) (snd demo_running))
     = \<lparr>alive = False, displayValue = 875, isAnimating = True, animationRef = None,
        previousValueRef = 0, hasInitializedRef = False, cleanup = True, timeouts = [],
        frames = []\<rparr> \<and>
   fst (snd (StatCard_rerender True 800 2000 (fst demo_running) (snd demo_running)))
     = \<lparr>alive = True, displayValue = 0, isAnimating = True, animationRef = None,
        previousValueRef = 0, hasInitializedRef = False, cleanup = True,
        timeouts = [(2, \<lparr>startValue = 0, targetValue = 2000, startTime = 800\<rparr>)],
        frames = []\<rparr> \<and>
   displayValue (fst (animate pow_rounded True 2300
      \<lparr>startValue = 0, targetValue = 2000, startTime = 800\<rparr> initial_card demo_env)) = 2000"
  using StatCard_rerender_while_animating [where c = "fst demo_running" and h = 2
     and a = "\<lparr>startValue = 0, targetValue = 1000, startTime = 0\<rparr>" and ?t2.0 = 2000
     and c' = initial_card and now = 800 and now' = 2300 and e = "snd demo_running"
     and Math_pow = pow_rounded and e' = demo_env]
  by (simp add: demo_running initial_card_def)

text \<open>
  C3 as stated fails. The card displays 875 on its way to 1000 when the dashboard
  renders with 2000: the transition towards 2000 starts from 0 on a card that
  displays 0, not from 875.
\<close>

theorem StatCard_restart_counterexample:
  "displayValue (fst demo_running) = 875 \<and>
   displayValue (fst (snd (StatCard_rerender True 800 2000 (fst demo_running) (snd demo_running))))
     = 0 \<and>
   timeouts (fst (snd (StatCard_rerender True 800 2000 (fst demo_running) (snd demo_running))))
     = [(2, \<lparr>startValue = 0, targetValue = 2000, startTime = 800\<rparr>)]"
  by (simp add: demo_running StatCard_rerender_def StatCard_mount_target initial_card_def)

text \<open>
  C4 on the code. A card has settled at 1000 and recorded 1000 as its baseline. The
  dashboard renders again with the same value 1000: the card mounted by that render
  displays 0 and has scheduled an animation from 0 towards 1000.
\<close>

theorem StatCard_unchanged_value_reanimates:
  "displayValue (fst demo_settled) = 1000 \<and>
   previousValueRef (fst demo_settled) = 1000 \<and>
   displayValue (fst (snd (StatCard_rerender True 2000 1000 (fst demo_settled) (snd demo_settled))))
     = 0 \<and>
   timeouts (fst (snd (StatCard_rerender True 2000 1000 (fst demo_settled) (snd demo_settled))))
     = [(2, \<lparr>startValue = 0, targetValue = 1000, startTime = 2000\<rparr>)]"
  by (simp add: demo_settled StatCard_rerender_def StatCard_mount_target initial_card_def)

text \<open>
  C7 on the code. A card has settled at 1000, is no longer animating and has recorded
  1000 as its baseline. The dashboard renders with the next target 1500: the
  transition towards 1500 starts from 0.
\<close>

theorem StatCard_next_transition_from_zero:
  "displayValue (fst demo_settled) = 1000 \<and>
   \<not> isAnimating (fst demo_settled) \<and>
   previousValueRef (fst demo_settled) = 1000 \<and>
   timeouts (fst (snd (StatCard_rerender True 2000 1500 (fst demo_settled) (snd demo_settled))))
     = [(2, \<lparr>startValue = 0, targetValue = 1500, startTime = 2000\<rparr>)]"
  by (simp add: demo_settled StatCard_rerender_def StatCard_mount_target initial_card_def)

subsection \<open>Deactivation\<close>

text \<open>
  C8, as the code has it. Once \<open>mountedRef\<close> is cleared, the completion of an
  outstanding fetch changes neither the view nor its surroundings, and a call of
  \<open>fetchStats\<close> ends at once. The cleanup of the dashboard clears the flag and the
  interval, whose tick then does nothing. A start delay that ends on a deactivated
  dashboard requests no frame and writes no cell of the card. A frame callback that
  runs on a deactivated dashboard calls one setter, which does nothing on a card that
  is unmounted. Unmounting a card cancels the frame whose handle the card holds.
\<close>

theorem deactivated_view_untouched:
  "(\<not> mountedRef v \<longrightarrow> fetchStats_resume P now r v e = (v, e)) \<and>
   (\<not> mountedRef v \<longrightarrow> fetchStats_begin P skipCache now v e = (Finished, v, e)) \<and>
   \<not> mountedRef (fst (DashboardStats_cleanup v e)) \<and>
   (intervalRef v = Some h \<and> h \<noteq> 0 \<longrightarrow>
      h \<notin> set (intervals (snd (DashboardStats_cleanup v e))) \<and>
      interval_tick P now h (fst (DashboardStats_cleanup v e)) (snd (DashboardStats_cleanup v e))
        = (Finished, fst (DashboardStats_cleanup v e), snd (DashboardStats_cleanup v e))) \<and>
   fst (timeout_fires False c e) = c\<lparr>timeouts := tl (timeouts c)\<rparr> \<and>
   animate Math_pow False now a c e = (setIsAnimating False c, e) \<and>
   (\<not> alive c \<longrightarrow> animate Math_pow False now a c e = (c, e)) \<and>
   \<not> alive (StatCard_unmount c) \<and>
   (animationRef c = Some i \<and> i \<noteq> 0 \<longrightarrow> i \<notin> fst ` set (frames (StatCard_unmount c)))"
proof (intro conjI impI)
  assume "\<not> mountedRef v"
  then show "fetchStats_resume P now r v e = (v, e)"
    by (simp add: fetchStats_resume_def fetchStats_catch_def fetchStats_finally_def
          split: response.splits sum.splits)
next
  assume "\<not> mountedRef v"
  then show "fetchStats_begin P skipCache now v e = (Finished, v, e)"
    by (simp add: fetchStats_begin_def)
next
  show "\<not> mountedRef (fst (DashboardStats_cleanup v e))"
    by (simp add: DashboardStats_cleanup_def)
next
  assume "intervalRef v = Some h \<and> h \<noteq> 0"
  then show "h \<notin> set (intervals (snd (DashboardStats_cleanup v e)))"
    by (simp add: DashboardStats_cleanup_def clearInterval_def)
next
  assume "intervalRef v = Some h \<and> h \<noteq> 0"
  then show "interval_tick P now h (fst (DashboardStats_cleanup v e))
        (snd (DashboardStats_cleanup v e))
        = (Finished, fst (DashboardStats_cleanup v e), snd (DashboardStats_cleanup v e))"
    by (simp add: interval_tick_def DashboardStats_cleanup_def clearInterval_def)
next
  show "fst (timeout_fires False c e) = c\<lparr>timeouts := tl (timeouts c)\<rparr>"
    by (cases "timeouts c") (auto simp: timeout_fires_def)
next
  show "animate Math_pow False now a c e = (setIsAnimating False c, e)"
    by (simp add: animate_def)
next
  assume "\<not> alive c"
  then show "animate Math_pow False now a c e = (c, e)"
    by (simp add: animate_def setIsAnimating_def)
next
  show "\<not> alive (StatCard_unmount c)"
    by (simp add: StatCard_unmount_def)
next
  assume "animationRef c = Some i \<and> i \<noteq> 0"
  then show "i \<notin> fst ` set (frames (StatCard_unmount c))"
    by (auto simp: StatCard_unmount_def StatCard_cleanup_def StatCard_unmount_cleanup_def
          cancelAnimationFrame_def)
qed

text \<open>A dashboard deactivated while its first fetch is out, and a card unmounted
  in the middle of its animation.\<close>

theorem deactivated_view_untouched_witness:
  "DashboardStats_effect demo_platform 0 (initial_view 0) demo_env
     = (Awaiting, (initial_view 0)\<lparr>loading := True, intervalRef := Some 1\<rparr>,
        demo_env\<lparr>requests := [''Bearer null''], intervals := [1], next_timer := 1\<rparr>) \<and>
   DashboardStats_cleanup ((initial_view 0)\<lparr>loading := True, intervalRef := Some 1\<rparr>)
      (demo_env\<lparr>requests := [''Bearer null''], intervals := [1], next_timer := 1\<rparr>)
     = ((initial_view 0)\<lparr>loading := True, intervalRef := Some 1, mountedRef := False\<rparr>,
        demo_env\<lparr>requests := [''Bearer null''], intervals := [], next_timer := 1\<rparr>) \<and>
   fetchStats_resume demo_platform 300 (Response 200 ''OK'' (Inr demo_snapshot))
      ((initial_view 0)\<lparr>loading := True, intervalRef := Some 1, mountedRef := False\<rparr>)
      (demo_env\<lparr>requests := [''Bearer null''], intervals := [], next_timer := 1\<rparr>)
     = ((initial_view 0)\<lparr>loading := True, intervalRef := Some 1, mountedRef := False\<rparr>,
        demo_env\<lparr>requests := [''Bearer null''], intervals := [], next_timer := 1\<rparr>) \<and>
   frames (fst demo_running) = [(2, \<lparr>startValue = 0, targetValue = 1000, startTime = 0\<rparr>)] \<and>
   frames (StatCard_unmount (fst demo_running)) = [] \<and>
   animate pow_rounded False 766 \<lparr>startValue = 0, targetValue = 1000, startTime = 0\<rparr>
      (StatCard_unmount (fst demo_running)) (snd demo_running)
     = (StatCard_unmount (fst demo_running), snd demo_running)"
  using deactivated_view_untouched [where
      v = "(initial_view 0)\<lparr>loading := True, intervalRef := Some 1, mountedRef := False\<rparr>"
      and P = demo_platform and now = 300 and r = "Response 200 ''OK'' (Inr demo_snapshot)"
      and e = "demo_env\<lparr>requests := [''Bearer null''], intervals := [], next_timer := 1\<rparr>"
      and skipCache = True and h = 1 and c = "fst demo_running" and Math_pow = pow_rounded
      and a = "\<lparr>startValue = 0, targetValue = 1000, startTime = 0\<rparr>" and i = 2]
    deactivated_view_untouched [where
      v = "(initial_view 0)\<lparr>loading := True, intervalRef := Some 1\<rparr>"
      and P = demo_platform and now = 300 and r = "Response 200 ''OK'' (Inr demo_snapshot)"
      and e = "demo_env\<lparr>requests := [''Bearer null''], intervals := [1], next_timer := 1\<rparr>"
      and skipCache = True and h = 1 and c = "fst demo_running" and Math_pow = pow_rounded
      and a = "\<lparr>startValue = 0, targetValue = 1000, startTime = 0\<rparr>" and i = 2]
    deactivated_view_untouched [where
      v = "initial_view 0" and P = demo_platform and now = 766
      and r = "Response 200 ''OK'' (Inr demo_snapshot)" and e = "snd demo_running"
      and skipCache = True and h = 1 and c = "StatCard_unmount (fst demo_running)"
      and Math_pow = pow_rounded
      and a = "\<lparr>startValue = 0, targetValue = 1000, startTime = 0\<rparr>" and i = 2]
  by (simp add: DashboardStats_effect_def DashboardStats_cleanup_def setInterval_def
        clearInterval_def fetchStats_begin_def loadCachedData_def getItem_def bearer_def
        demo_defs demo_running StatCard_unmount_def StatCard_cleanup_def
        StatCard_unmount_cleanup_def cancelAnimationFrame_def setIsAnimating_def)

text \<open>
  C8 as stated fails. A card is replaced during its start delay; unmounting it
  cancels no timer. Its timeout runs while the dashboard is mounted and requests a
  frame. Deactivation unmounts the mounted cards and leaves that frame pending. The
  frame runs on the deactivated dashboard and changes no state.
\<close>

theorem leftover_frame_counterexample:
  "fst demo_replaced
     = \<lparr>alive = False, displayValue = 0, isAnimating = True, animationRef = None,
        previousValueRef = 0, hasInitializedRef = False, cleanup = True,
        timeouts = [(1, \<lparr>startValue = 0, targetValue = 1000, startTime = 0\<rparr>)],
        frames = []\<rparr> \<and>
   frames (fst demo_leftover) = [(1, \<lparr>startValue = 0, targetValue = 1000, startTime = 0\<rparr>)] \<and>
   frames (unmount_mounted (fst demo_leftover))
     = [(1, \<lparr>startValue = 0, targetValue = 1000, startTime = 0\<rparr>)] \<and>
   fst (frame_fires pow_rounded False 120 (unmount_mounted (fst demo_leftover))
      (snd demo_leftover))
     = (fst demo_leftover)\<lparr>frames := []\<rparr>"
  by (simp add: demo_leftover demo_replaced_def demo_mounted_def demo_env_def card_defs Let_def)

end
